theory Spec2Isabelle
  imports Main
begin

section \<open>Python values\<close>

text \<open>
  A Python \<open>str\<close> is a sequence of Unicode code points, so it is modelled as a list of
  naturals. The Cyrillic literals of the source are written as their code points, each
  with its place in the source.
\<close>

type_synonym pystr = "nat list"

text \<open>\<open>p in s\<close> on strings: \<open>p\<close> occurs in \<open>s\<close> as a contiguous run.\<close>

fun startswith :: "pystr \<Rightarrow> pystr \<Rightarrow> bool" where
  "startswith s [] = True"
| "startswith [] (p # ps) = False"
| "startswith (c # cs) (p # ps) = (c = p \<and> startswith cs ps)"

fun str_in :: "pystr \<Rightarrow> pystr \<Rightarrow> bool" where
  "str_in p [] = (p = [])"
| "str_in p (c # cs) = (startswith (c # cs) p \<or> str_in p cs)"

text \<open>
  \<open>str.isspace\<close> of one code point (the white space of Unicode), which is what
  \<open>str.strip()\<close> without an argument removes at both ends.
\<close>

definition isspace :: "nat \<Rightarrow> bool" where
  "isspace c = (c \<in> {9, 10, 11, 12, 13, 28, 29, 30, 31, 32, 133, 160, 5760,
     8192, 8193, 8194, 8195, 8196, 8197, 8198, 8199, 8200, 8201, 8202,
     8232, 8233, 8239, 8287, 12288})"

definition strip :: "pystr \<Rightarrow> pystr" where
  "strip s = rev (dropWhile isspace (rev (dropWhile isspace s)))"

text \<open>
  \<open>s.split(sep, 1)\<close> for a separator of one character: the text before the first
  separator and the text after it, or the whole text alone when there is none.
\<close>

definition split1 :: "nat \<Rightarrow> pystr \<Rightarrow> pystr list" where
  "split1 sep s =
     (if sep \<in> set s
      then [takeWhile (\<lambda>c. c \<noteq> sep) s, tl (dropWhile (\<lambda>c. c \<noteq> sep) s)]
      else [s])"

text \<open>\<open>x or d\<close> for an \<open>Optional[str]\<close>: \<open>None\<close> and the empty string are falsy.\<close>

definition or_else :: "pystr option \<Rightarrow> pystr \<Rightarrow> pystr" where
  "or_else x d = (case x of None \<Rightarrow> d | Some s \<Rightarrow> if s = [] then d else s)"

subsection \<open>The string literals of the source\<close>

definition kw_zapis :: pystr where
  \<comment> \<open>the trigger term "zapis" (booking), app-webhook.py:123, app-calendar.py:75\<close>
  "kw_zapis =
     [1079, 1072, 1087, 1080, 1089, 1100]"

definition kw_simptom :: pystr where
  \<comment> \<open>the trigger term "simptom" (symptom), app-webhook.py:123, app-calendar.py:75\<close>
  "kw_simptom =
     [1089, 1080, 1084, 1087, 1090, 1086, 1084]"

definition summary_prefix :: pystr where
  \<comment> \<open>"Priem: " (appointment), the head of the summary and of the query\<close>
  "summary_prefix =
     [1055, 1088, 1080, 1077, 1084, 58, 32]"

definition comma_space :: pystr where
  \<comment> \<open>the separator ", " of the summary\<close>
  "comma_space =
     [44, 32]"

definition description_prefix :: pystr where
  \<comment> \<open>"Simptomy: " (symptoms), the head of the description\<close>
  "description_prefix =
     [1057, 1080, 1084, 1087, 1090, 1086, 1084, 1099, 58, 32]"

definition str_na :: pystr where
  \<comment> \<open>" na " (at), between the specialist and the date\<close>
  "str_na =
     [32, 1085, 1072, 32]"

definition wh_prompt :: pystr where
  \<comment> \<open>app-webhook.py:129, the request for the name and the symptoms, separated by a comma\<close>
  "wh_prompt =
     [1055, 1086, 1078, 1072, 1083, 1091, 1081, 1089, 1090, 1072, 44, 32, 1091, 1082, 1072, 1078,
      1080, 1090, 1077, 32, 1074, 1072, 1096, 1077, 32, 1087, 1086, 1083, 1085, 1086, 1077,
      32, 1080, 1084, 1103, 32, 1080, 32, 1086, 1087, 1080, 1096, 1080, 1090, 1077, 32,
      1089, 1080, 1084, 1087, 1090, 1086, 1084, 1099, 32, 40, 1095, 1077, 1088, 1077, 1079,
      32, 1079, 1072, 1087, 1103, 1090, 1091, 1102, 41, 46]"

definition wh_format_error :: pystr where
  \<comment> \<open>app-webhook.py:135, the wrong-format message\<close>
  "wh_format_error =
     [1053, 1077, 1074, 1077, 1088, 1085, 1099, 1081, 32, 1092, 1086, 1088, 1084, 1072, 1090, 46,
      32, 1055, 1086, 1078, 1072, 1083, 1091, 1081, 1089, 1090, 1072, 44, 32, 1091, 1082,
      1072, 1078, 1080, 1090, 1077, 32, 1080, 1084, 1103, 32, 1080, 32, 1089, 1080, 1084,
      1087, 1090, 1086, 1084, 1099, 32, 1095, 1077, 1088, 1077, 1079, 32, 1079, 1072, 1087,
      1103, 1090, 1091, 1102, 46]"

definition wh_fallback :: pystr where
  \<comment> \<open>app-webhook.py:139, the reply when schedule_appointment gives None\<close>
  "wh_fallback =
     [1048, 1079, 1074, 1080, 1085, 1080, 1090, 1077, 44, 32, 1087, 1088, 1086, 1080, 1079, 1086,
      1096, 1083, 1072, 32, 1086, 1096, 1080, 1073, 1082, 1072, 32, 1086, 1073, 1088, 1072,
      1073, 1086, 1090, 1082, 1080, 32, 1079, 1072, 1087, 1088, 1086, 1089, 1072, 46]"

definition wh_duplicate :: pystr where
  \<comment> \<open>app-webhook.py:89, "you already have an active booking, wait for the confirmation"\<close>
  "wh_duplicate =
     [1059, 32, 1074, 1072, 1089, 32, 1091, 1078, 1077, 32, 1077, 1089, 1090, 1100, 32, 1072,
      1082, 1090, 1080, 1074, 1085, 1072, 1103, 32, 1079, 1072, 1087, 1080, 1089, 1100, 46,
      32, 1055, 1086, 1078, 1072, 1083, 1091, 1081, 1089, 1090, 1072, 44, 32, 1076, 1086,
      1078, 1076, 1080, 1090, 1077, 1089, 1100, 32, 1087, 1086, 1076, 1090, 1074, 1077,
      1088, 1078, 1076, 1077, 1085, 1080, 1103, 46]"

definition wh_api_error :: pystr where
  \<comment> \<open>app-webhook.py:115, the reply to an HttpError of the calendar\<close>
  "wh_api_error =
     [1054, 1096, 1080, 1073, 1082, 1072, 32, 1087, 1086, 1076, 1082, 1083, 1102, 1095, 1077,
      1085, 1080, 1103, 32, 1082, 32, 1089, 1080, 1089, 1090, 1077, 1084, 1077, 32, 1079,
      1072, 1087, 1080, 1089, 1080, 46, 32, 1055, 1086, 1087, 1088, 1086, 1073, 1091, 1081,
      1090, 1077, 32, 1087, 1086, 1079, 1078, 1077, 46]"

definition wh_pending_prefix :: pystr where
  \<comment> \<open>app-webhook.py:111, "preliminary booking with "\<close>
  "wh_pending_prefix =
     [1055, 1088, 1077, 1076, 1074, 1072, 1088, 1080, 1090, 1077, 1083, 1100, 1085, 1072, 1103,
      32, 1079, 1072, 1087, 1080, 1089, 1100, 32, 1082, 32]"

definition wh_pending_suffix :: pystr where
  \<comment> \<open>app-webhook.py:111, " is created. Wait for the confirmation."\<close>
  "wh_pending_suffix =
     [32, 1089, 1086, 1079, 1076, 1072, 1085, 1072, 46, 32, 1054, 1078, 1080, 1076, 1072, 1081,
      1090, 1077, 32, 1087, 1086, 1076, 1090, 1074, 1077, 1088, 1078, 1076, 1077, 1085,
      1080, 1103, 46]"

definition wh_generation_error :: pystr where
  \<comment> \<open>app-webhook.py:156\<close>
  "wh_generation_error =
     [1055, 1088, 1086, 1080, 1079, 1086, 1096, 1083, 1072, 32, 1074, 1085, 1091, 1090, 1088,
      1077, 1085, 1085, 1103, 1103, 32, 1086, 1096, 1080, 1073, 1082, 1072, 46, 32, 1055,
      1086, 1078, 1072, 1083, 1091, 1081, 1089, 1090, 1072, 44, 32, 1087, 1086, 1074, 1090,
      1086, 1088, 1080, 1090, 1077, 32, 1079, 1072, 1087, 1088, 1086, 1089, 46]"

definition wh_dialog :: pystr where
  \<comment> \<open>app-webhook.py:141\<close>
  "wh_dialog =
     [10, 10, 1044, 1080, 1072, 1083, 1086, 1075, 58, 10]"

definition wh_user :: pystr where
  \<comment> \<open>app-webhook.py:141\<close>
  "wh_user =
     [10, 1055, 1086, 1083, 1100, 1079, 1086, 1074, 1072, 1090, 1077, 1083, 1100, 58, 32]"

definition wh_assistant :: pystr where
  \<comment> \<open>app-webhook.py:141\<close>
  "wh_assistant =
     [10, 1055, 1086, 1084, 1086, 1097, 1085, 1080, 1082, 58]"

definition cal_prompt :: pystr where
  \<comment> \<open>app-calendar.py:81\<close>
  "cal_prompt =
     [1055, 1086, 1078, 1072, 1083, 1091, 1081, 1089, 1090, 1072, 44, 32, 1091, 1082, 1072, 1078,
      1080, 1090, 1077, 32, 1074, 1072, 1096, 1077, 32, 1087, 1086, 1083, 1085, 1086, 1077,
      32, 1080, 1084, 1103, 32, 1080, 32, 1086, 1087, 1080, 1096, 1080, 1090, 1077, 32,
      1089, 1080, 1084, 1087, 1090, 1086, 1084, 1099, 46]"

definition cal_needs_confirmation :: pystr where
  \<comment> \<open>app-calendar.py:52, the tail of the description\<close>
  "cal_needs_confirmation =
     [46, 32, 1058, 1088, 1077, 1073, 1091, 1077, 1090, 32, 1087, 1086, 1076, 1090, 1074, 1077,
      1088, 1078, 1076, 1077, 1085, 1080, 1103, 46]"

definition cal_booked_prefix :: pystr where
  \<comment> \<open>app-calendar.py:68, "booking with "\<close>
  "cal_booked_prefix =
     [1047, 1072, 1087, 1080, 1089, 1100, 32, 1082, 32]"

definition cal_booked_suffix :: pystr where
  \<comment> \<open>app-calendar.py:68, " is made."\<close>
  "cal_booked_suffix =
     [32, 1086, 1092, 1086, 1088, 1084, 1083, 1077, 1085, 1072, 46]"

definition cal_error :: pystr where
  \<comment> \<open>app-calendar.py:71\<close>
  "cal_error =
     [1054, 1096, 1080, 1073, 1082, 1072, 32, 1087, 1088, 1080, 32, 1089, 1086, 1079, 1076, 1072,
      1085, 1080, 1080, 32, 1079, 1072, 1087, 1080, 1089, 1080, 46, 32, 1055, 1086, 1078,
      1072, 1083, 1091, 1081, 1089, 1090, 1072, 44, 32, 1087, 1086, 1087, 1088, 1086, 1073,
      1091, 1081, 1090, 1077, 32, 1087, 1086, 1079, 1078, 1077, 46]"

definition cal_generation_error :: pystr where
  \<comment> \<open>app-calendar.py:105\<close>
  "cal_generation_error =
     [1055, 1088, 1086, 1080, 1079, 1086, 1096, 1083, 1072, 32, 1086, 1096, 1080, 1073, 1082,
      1072, 46, 32, 1055, 1086, 1078, 1072, 1083, 1091, 1081, 1089, 1090, 1072, 44, 32,
      1087, 1086, 1087, 1088, 1086, 1073, 1091, 1081, 1090, 1077, 32, 1077, 1097, 1077, 32,
      1088, 1072, 1079, 46]"

definition cal_user :: pystr where
  \<comment> \<open>app-calendar.py:40-41\<close>
  "cal_user =
     [1055, 1086, 1083, 1100, 1079, 1086, 1074, 1072, 1090, 1077, 1083, 1100, 58, 32]"

definition cal_assistant :: pystr where
  \<comment> \<open>app-calendar.py:40-41\<close>
  "cal_assistant =
     [10, 1055, 1086, 1084, 1086, 1097, 1085, 1080, 1082, 58, 32]"

subsection \<open>Dates and times\<close>

text \<open>
  A naive \<open>datetime\<close> is the number of microseconds since 0001-01-01T00:00:00, a
  \<open>timedelta\<close> a number of microseconds. \<open>datetime + timedelta\<close> raises
  \<open>OverflowError\<close> outside \<open>datetime.min .. datetime.max\<close>; here that is \<open>None\<close>.
\<close>

type_synonym datetime = int

definition DATETIME_MAX :: datetime where
  \<comment> \<open>9999-12-31T23:59:59.999999\<close>
  "DATETIME_MAX = 315537897599999999"

definition timedelta_hours :: "int \<Rightarrow> int" where
  "timedelta_hours h = h * 3600000000"

definition timedelta_minutes :: "int \<Rightarrow> int" where
  "timedelta_minutes m = m * 60000000"

definition datetime_add :: "datetime \<Rightarrow> int \<Rightarrow> datetime option" where
  "datetime_add t d = (if 0 \<le> t + d \<and> t + d \<le> DATETIME_MAX then Some (t + d) else None)"

text \<open>
  \<open>strftime('%d.%m.%Y %H:%M')\<close>. The date of a day number is computed the way the
  standard library does it (the proleptic Gregorian calendar, day 1 being 0001-01-01).
\<close>

definition DAYS_BEFORE_MONTH :: "int \<Rightarrow> int" where
  "DAYS_BEFORE_MONTH m = [0, 0, 31, 59, 90, 120, 151, 181, 212, 243, 273, 304, 334] ! nat m"

definition DAYS_IN_MONTH :: "int \<Rightarrow> int" where
  "DAYS_IN_MONTH m = [0, 31, 28, 31, 30, 31, 30, 31, 31, 30, 31, 30, 31] ! nat m"

definition ord2ymd :: "int \<Rightarrow> int \<times> int \<times> int" where
  "ord2ymd ordinal =
     (let n = ordinal - 1;
          n400 = n div 146097; r400 = n mod 146097;
          n100 = r400 div 36524; r100 = r400 mod 36524;
          n4 = r100 div 1461; r4 = r100 mod 1461;
          n1 = r4 div 365; r1 = r4 mod 365;
          year = n400 * 400 + 1 + n100 * 100 + n4 * 4 + n1
      in if n1 = 4 \<or> n100 = 4 then (year - 1, 12, 31)
         else
           let leapyear = (n1 = 3 \<and> (n4 \<noteq> 24 \<or> n100 = 3));
               month = (r1 + 50) div 32;
               preceding = DAYS_BEFORE_MONTH month + (if 2 < month \<and> leapyear then 1 else 0)
           in if r1 < preceding
              then (year, month - 1,
                    r1 - (preceding - (DAYS_IN_MONTH (month - 1)
                            + (if month - 1 = 2 \<and> leapyear then 1 else 0))) + 1)
              else (year, month, r1 - preceding + 1))"

definition digit :: "int \<Rightarrow> nat" where
  "digit d = 48 + nat (d mod 10)"

definition pad2 :: "int \<Rightarrow> pystr" where
  "pad2 n = [digit (n div 10), digit n]"

definition pad4 :: "int \<Rightarrow> pystr" where
  "pad4 n = [digit (n div 1000), digit (n div 100), digit (n div 10), digit n]"

definition strftime :: "datetime \<Rightarrow> pystr" where
  "strftime t =
     (let minutes = t div 60000000;
          (y, m, d) = ord2ymd (minutes div 1440 + 1);
          hh = (minutes mod 1440) div 60;
          mm = minutes mod 60
      in pad2 d @ [46] @ pad2 m @ [46] @ pad4 y @ [32] @ pad2 hh @ [58] @ pad2 mm)"

section \<open>The world outside the program\<close>

text \<open>
  The exceptions the two files tell apart: \<open>HttpError\<close> of the Google API client (the
  only one \<open>check_duplicate_event\<close> catches), \<open>RetryError\<close> of tenacity (raised when
  the attempts are used up), the exceptions of \<open>requests\<close> (a failed connection, a
  timeout, the \<open>HTTPError\<close> of \<open>raise_for_status\<close>), \<open>OverflowError\<close> of the date
  arithmetic, and any other \<open>Exception\<close>.
\<close>

datatype exn = HttpError | RetryError | RequestException | OverflowError | OtherException

text \<open>
  The body of a calendar event as the source builds it. \<open>start_time\<close> and \<open>end_time\<close>
  stand for the \<open>dateTime\<close> entries (the ISO text of these times);
  \<open>requires_confirmation\<close> is the private extended property, which only
  \<open>app-webhook.py\<close> sets.
\<close>

record event =
  summary :: pystr
  description :: pystr
  start_time :: datetime
  end_time :: datetime
  requires_confirmation :: bool

text \<open>What the confirmation endpoint answers to one POST.\<close>

datatype post_reply = Response nat | ConnectionFailed

text \<open>The calls that leave the process, in the order they are made.\<close>

datatype call =
    ListEvents datetime datetime pystr nat
  | InsertEvent event
  | Classify pystr
  | Post nat
  | Wait nat
  | TextGeneration pystr

text \<open>
  The state a run of the program reads and writes:
  \<^item> \<open>step\<close>: the attribute \<open>generate_response.step\<close> of the function object
    (\<open>None\<close> while \<open>hasattr\<close> is false);
  \<^item> \<open>clock\<close>: the latest reading of \<open>datetime.now()\<close>, and \<open>ticks\<close>: the
    microseconds that pass before each coming reading (none left: no time passes);
  \<^item> \<open>events\<close>: the events the calendar service holds, each with its id;
  \<^item> \<open>api_faults\<close>: what each coming call of the calendar client does, in order
    (\<open>Some e\<close>: it raises \<open>e\<close>; none left: it succeeds);
  \<^item> \<open>post_replies\<close>: what the endpoint answers to each coming POST (none left: 200);
  \<^item> \<open>trace\<close>: the outside calls made so far.
\<close>

record world =
  step :: "nat option"
  clock :: datetime
  ticks :: "nat list"
  events :: "(nat \<times> event) list"
  api_faults :: "exn option list"
  post_replies :: "post_reply list"
  trace :: "call list"

text \<open>
  What the program is configured and linked with. None of it is under \<open>src/\<close>, so each
  is a parameter:
  \<^item> \<open>lower\<close>: \<open>str.lower\<close> (the case tables of Unicode);
  \<^item> \<open>define_specialist\<close>: the classifier of the module \<open>symptom_classifier\<close>;
  \<^item> \<open>q_match\<close>: the free-text search of the calendar service (does the query \<open>q\<close>
    match this event);
  \<^item> \<open>WEBHOOK_URL\<close>: the environment variable \<open>CONFIRMATION_WEBHOOK_URL\<close>;
  \<^item> \<open>SYSTEM_PROMPT\<close>: the loaded prompt; \<open>str_history\<close>: \<open>str()\<close> of the history
    list; \<open>text_generation\<close>: the tokens the inference client streams for a prompt, and
    whether the stream then raises.
\<close>

record env =
  lower :: "pystr \<Rightarrow> pystr"
  define_specialist :: "pystr \<Rightarrow> exn + pystr"
  q_match :: "pystr \<Rightarrow> event \<Rightarrow> bool"
  WEBHOOK_URL :: "pystr option"
  SYSTEM_PROMPT :: pystr
  str_history :: "(pystr \<times> pystr) list \<Rightarrow> pystr"
  text_generation :: "pystr \<Rightarrow> pystr list \<times> bool"

definition datetime_now :: "world \<Rightarrow> datetime \<times> world" where
  "datetime_now w =
     (case ticks w of
        [] \<Rightarrow> (clock w, w)
      | d # ds \<Rightarrow> (clock w + int d, w\<lparr>clock := clock w + int d, ticks := ds\<rparr>))"

definition api_fault :: "world \<Rightarrow> exn option \<times> world" where
  "api_fault w =
     (case api_faults w of
        [] \<Rightarrow> (None, w)
      | f # fs \<Rightarrow> (f, w\<lparr>api_faults := fs\<rparr>))"

definition classify :: "env \<Rightarrow> pystr \<Rightarrow> world \<Rightarrow> (exn + pystr) \<times> world" where
  \<comment> \<open>the call \<open>define_specialist(symptoms)\<close>, recorded in the trace\<close>
  "classify E symptoms w = (define_specialist E symptoms, w\<lparr>trace := trace w @ [Classify symptoms]\<rparr>)"

subsection \<open>The calendar service\<close>

text \<open>
  \<open>get_calendar_service()\<close> reads the credentials and builds the client; it returns
  the client or raises.
\<close>

definition get_calendar_service :: "world \<Rightarrow> exn option \<times> world" where
  "get_calendar_service w = api_fault w"

text \<open>
  \<open>events().list(timeMin, timeMax, q, maxResults).execute()\<close>: the service returns the
  events that end after \<open>timeMin\<close>, start before \<open>timeMax\<close> and match \<open>q\<close>, at most
  \<open>maxResults\<close> of them.
\<close>

definition overlaps :: "datetime \<Rightarrow> datetime \<Rightarrow> event \<Rightarrow> bool" where
  "overlaps timeMin timeMax ev = (timeMin < end_time ev \<and> start_time ev < timeMax)"

definition events_list ::
  "env \<Rightarrow> datetime \<Rightarrow> datetime \<Rightarrow> pystr \<Rightarrow> nat \<Rightarrow> world \<Rightarrow> (exn + (nat \<times> event) list) \<times> world" where
  "events_list E timeMin timeMax q maxResults w =
     (case api_fault (w\<lparr>trace := trace w @ [ListEvents timeMin timeMax q maxResults]\<rparr>) of
        (Some e, w1) \<Rightarrow> (Inl e, w1)
      | (None, w1) \<Rightarrow>
          (Inr (take maxResults
                 (filter (\<lambda>item. overlaps timeMin timeMax (snd item) \<and> q_match E q (snd item))
                    (events w1))), w1))"

text \<open>
  \<open>events().insert(body).execute()\<close>: the service stores the event under a fresh id and
  returns it.
\<close>

definition events_insert :: "event \<Rightarrow> world \<Rightarrow> (exn + nat) \<times> world" where
  "events_insert body w =
     (case api_fault (w\<lparr>trace := trace w @ [InsertEvent body]\<rparr>) of
        (Some e, w1) \<Rightarrow> (Inl e, w1)
      | (None, w1) \<Rightarrow>
          (Inr (length (events w1)), w1\<lparr>events := events w1 @ [(length (events w1), body)]\<rparr>))"

section \<open>app-webhook.py\<close>

definition MAX_RETRIES :: nat where
  "MAX_RETRIES = 3"

subsection \<open>send_webhook_confirmation\<close>

text \<open>
  \<open>requests.post(WEBHOOK_URL, json=payload, timeout=10)\<close> gives a response or raises;
  \<open>raise_for_status()\<close> raises for the status codes 400 to 599.
\<close>

definition requests_post :: "nat \<Rightarrow> world \<Rightarrow> post_reply \<times> world" where
  "requests_post event_id w =
     (case post_replies w of
        [] \<Rightarrow> (Response 200, w\<lparr>trace := trace w @ [Post event_id]\<rparr>)
      | r # rs \<Rightarrow> (r, w\<lparr>post_replies := rs, trace := trace w @ [Post event_id]\<rparr>))"

definition raise_for_status :: "nat \<Rightarrow> bool" where
  "raise_for_status status_code = (400 \<le> status_code \<and> status_code < 600)"

definition url_set :: "env \<Rightarrow> bool" where
  \<comment> \<open>the truth value of \<open>WEBHOOK_URL\<close>: unset and empty are falsy\<close>
  "url_set E = (case WEBHOOK_URL E of None \<Rightarrow> False | Some u \<Rightarrow> u \<noteq> [])"

text \<open>The body of the function, one attempt: \<open>None\<close> when it returns, \<open>Some e\<close> when it raises.\<close>

definition send_webhook_confirmation_body :: "env \<Rightarrow> nat \<Rightarrow> world \<Rightarrow> exn option \<times> world" where
  "send_webhook_confirmation_body E event_id w =
     (if \<not> url_set E then (None, w)
      else
        case requests_post event_id w of
          (ConnectionFailed, w1) \<Rightarrow> (Some RequestException, w1)
        | (Response status_code, w1) \<Rightarrow>
            if raise_for_status status_code then (Some RequestException, w1) else (None, w1))"

text \<open>
  The decorator \<open>@retry(stop=stop_after_attempt(MAX_RETRIES), wait=wait_fixed(2))\<close>:
  the body is run; when it raises and this was attempt number \<open>MAX_RETRIES\<close> or later,
  \<open>RetryError\<close> is raised, otherwise the caller sleeps 2 seconds and the body is run again.
\<close>

function retrying :: "env \<Rightarrow> nat \<Rightarrow> nat \<Rightarrow> world \<Rightarrow> exn option \<times> world" where
  "retrying E event_id attempt_number w =
     (case send_webhook_confirmation_body E event_id w of
        (None, w1) \<Rightarrow> (None, w1)
      | (Some e, w1) \<Rightarrow>
          if MAX_RETRIES \<le> attempt_number then (Some RetryError, w1)
          else retrying E event_id (attempt_number + 1) (w1\<lparr>trace := trace w1 @ [Wait 2]\<rparr>))"
  by pat_completeness auto
termination
  by (relation "measure (\<lambda>(E, event_id, attempt_number, w). MAX_RETRIES - attempt_number)") auto

definition send_webhook_confirmation :: "env \<Rightarrow> nat \<Rightarrow> world \<Rightarrow> exn option \<times> world" where
  "send_webhook_confirmation E event_id w = retrying E event_id 1 w"

declare retrying.simps [simp del]

subsection \<open>check_duplicate_event\<close>

text \<open>
  The \<open>try\<close> block: the client is built, the query is sent for the half hour that starts
  at \<open>time\<close>, and the answer is whether an item came back.
\<close>

definition check_duplicate_event_try ::
  "env \<Rightarrow> pystr \<Rightarrow> datetime \<Rightarrow> world \<Rightarrow> (exn + bool) \<times> world" where
  "check_duplicate_event_try E name time w =
     (case get_calendar_service w of
        (Some e, w1) \<Rightarrow> (Inl e, w1)
      | (None, w1) \<Rightarrow>
          (case datetime_add time (timedelta_minutes 30) of
             None \<Rightarrow> (Inl OverflowError, w1)
           | Some timeMax \<Rightarrow>
               (case events_list E time timeMax (summary_prefix @ name) 1 w1 of
                  (Inl e, w2) \<Rightarrow> (Inl e, w2)
                | (Inr items, w2) \<Rightarrow> (Inr (0 < length items), w2))))"

text \<open>\<open>except HttpError\<close>: that exception alone becomes the answer \<open>False\<close>.\<close>

definition check_duplicate_event ::
  "env \<Rightarrow> pystr \<Rightarrow> datetime \<Rightarrow> world \<Rightarrow> (exn + bool) \<times> world" where
  "check_duplicate_event E name time w =
     (case check_duplicate_event_try E name time w of
        (Inl HttpError, w1) \<Rightarrow> (Inr False, w1)
      | (r, w1) \<Rightarrow> (r, w1))"

subsection \<open>schedule_appointment\<close>

definition wh_event :: "pystr \<Rightarrow> pystr \<Rightarrow> pystr \<Rightarrow> datetime \<Rightarrow> datetime \<Rightarrow> event" where
  \<comment> \<open>the dictionary \<open>event\<close> of lines 95 to 101\<close>
  "wh_event name specialist symptoms appointment_time end_at =
     \<lparr>summary = summary_prefix @ name @ comma_space @ specialist,
      description = description_prefix @ symptoms,
      start_time = appointment_time,
      end_time = end_at,
      requires_confirmation = True\<rparr>"

definition wh_pending :: "pystr \<Rightarrow> datetime \<Rightarrow> pystr" where
  \<comment> \<open>the reply of line 111\<close>
  "wh_pending specialist appointment_time =
     wh_pending_prefix @ specialist @ str_na @ strftime appointment_time @ wh_pending_suffix"

text \<open>Lines 91 to 111: what follows a duplicate check that found nothing.\<close>

definition wh_book :: "env \<Rightarrow> pystr \<Rightarrow> pystr \<Rightarrow> world \<Rightarrow> (exn + pystr) \<times> world" where
  "wh_book E name symptoms w =
     (case classify E symptoms w of
        (Inl e, w1) \<Rightarrow> (Inl e, w1)
      | (Inr specialist, w1) \<Rightarrow>
          (case datetime_now w1 of (now, w2) \<Rightarrow>
          (case datetime_add now (timedelta_hours 3) of
             None \<Rightarrow> (Inl OverflowError, w2)
           | Some appointment_time \<Rightarrow>
          (case get_calendar_service w2 of
             (Some e, w3) \<Rightarrow> (Inl e, w3)
           | (None, w3) \<Rightarrow>
          (case datetime_add appointment_time (timedelta_minutes 30) of
             None \<Rightarrow> (Inl OverflowError, w3)
           | Some end_at \<Rightarrow>
          (case events_insert (wh_event name specialist symptoms appointment_time end_at) w3 of
             (Inl e, w4) \<Rightarrow> (Inl e, w4)
           | (Inr event_id, w4) \<Rightarrow>
          (case send_webhook_confirmation E event_id w4 of
             (Some e, w5) \<Rightarrow> (Inl e, w5)
           | (None, w5) \<Rightarrow> (Inr (wh_pending specialist appointment_time), w5))))))))"

text \<open>The \<open>try\<close> block of \<open>schedule_appointment\<close>, lines 88 to 111.\<close>

definition wh_schedule_appointment_try ::
  "env \<Rightarrow> pystr \<Rightarrow> pystr \<Rightarrow> world \<Rightarrow> (exn + pystr) \<times> world" where
  "wh_schedule_appointment_try E name symptoms w =
     (case datetime_now w of (now, w1) \<Rightarrow>
      (case check_duplicate_event E name now w1 of
         (Inl e, w2) \<Rightarrow> (Inl e, w2)
       | (Inr True, w2) \<Rightarrow> (Inr wh_duplicate, w2)
       | (Inr False, w2) \<Rightarrow> wh_book E name symptoms w2))"

text \<open>
  The two handlers: \<open>HttpError\<close> gives the connection message, any other exception
  gives \<open>None\<close>.
\<close>

definition wh_schedule_appointment ::
  "env \<Rightarrow> pystr \<Rightarrow> pystr \<Rightarrow> world \<Rightarrow> pystr option \<times> world" where
  "wh_schedule_appointment E name symptoms w =
     (case wh_schedule_appointment_try E name symptoms w of
        (Inr reply, w1) \<Rightarrow> (Some reply, w1)
      | (Inl HttpError, w1) \<Rightarrow> (Some wh_api_error, w1)
      | (Inl e, w1) \<Rightarrow> (None, w1))"

subsection \<open>generate_response\<close>

text \<open>
  \<open>generate_response\<close> contains \<open>yield\<close>, so calling it makes a generator. Running the
  generator to its end gives the values it yields, in order, the value of the \<open>return\<close>
  that ended it (\<open>None\<close> when it ends without one), and the world it leaves.
\<close>

record generated =
  yielded :: "pystr list"
  returned :: "pystr option"
  world_after :: world

text \<open>The loop over the stream: each token is appended and the text so far is yielded.\<close>

fun accumulate :: "pystr \<Rightarrow> pystr list \<Rightarrow> pystr list" where
  "accumulate full_response [] = []"
| "accumulate full_response (token # tokens) =
     (full_response @ token) # accumulate (full_response @ token) tokens"

text \<open>
  The generation path, from the prompt on: the tokens are streamed; when the client
  raises, the handler of the function yields its error message.
\<close>

definition stream_reply :: "env \<Rightarrow> pystr \<Rightarrow> pystr \<Rightarrow> world \<Rightarrow> generated" where
  "stream_reply E prompt error_message w =
     (case text_generation E prompt of (tokens, raises) \<Rightarrow>
        \<lparr>yielded = accumulate [] tokens @ (if raises then [error_message] else []),
         returned = None,
         world_after = w\<lparr>trace := trace w @ [TextGeneration prompt]\<rparr>\<rparr>)"

definition wh_trigger :: "env \<Rightarrow> pystr \<Rightarrow> bool" where
  \<comment> \<open>the condition of line 123\<close>
  "wh_trigger E message = (str_in kw_zapis (lower E message) \<or> str_in kw_simptom (lower E message))"

definition wh_generate :: "env \<Rightarrow> pystr \<Rightarrow> (pystr \<times> pystr) list \<Rightarrow> world \<Rightarrow> generated" where
  \<comment> \<open>lines 141 to 156\<close>
  "wh_generate E message history w =
     stream_reply E
       (SYSTEM_PROMPT E @ wh_dialog @ str_history E history @ wh_user @ message @ wh_assistant)
       wh_generation_error w"

definition init_step :: "world \<Rightarrow> world" where
  \<comment> \<open>\<open>if not hasattr(generate_response, "step"): generate_response.step = 0\<close>\<close>
  "init_step w = (if step w = None then w\<lparr>step := Some 0\<rparr> else w)"

definition wh_generate_response ::
  "env \<Rightarrow> pystr \<Rightarrow> (pystr \<times> pystr) list \<Rightarrow> world \<Rightarrow> generated" where
  "wh_generate_response E message history w =
     (if wh_trigger E message then
        (let w0 = init_step w in
         if step w0 = Some 0 then
           \<lparr>yielded = [], returned = Some wh_prompt, world_after = w0\<lparr>step := Some 1\<rparr>\<rparr>
         else if step w0 = Some 1 then
           (let w1 = w0\<lparr>step := Some 0\<rparr>;
                parts = split1 44 message
            in if length parts < 2 then
                 \<lparr>yielded = [], returned = Some wh_format_error, world_after = w1\<rparr>
               else
                 (case wh_schedule_appointment E (strip (parts ! 0)) (strip (parts ! 1)) w1 of
                    (response, w2) \<Rightarrow>
                      \<lparr>yielded = [], returned = Some (or_else response wh_fallback),
                       world_after = w2\<rparr>))
         else wh_generate E message history w0)
      else wh_generate E message history w)"

section \<open>app-calendar.py\<close>

subsection \<open>schedule_appointment\<close>

definition cal_event :: "pystr \<Rightarrow> pystr \<Rightarrow> pystr \<Rightarrow> datetime \<Rightarrow> datetime \<Rightarrow> event" where
  \<comment> \<open>the dictionary \<open>event\<close> of lines 50 to 61\<close>
  "cal_event name specialist symptoms appointment_time end_at =
     \<lparr>summary = summary_prefix @ name @ comma_space @ specialist,
      description = description_prefix @ symptoms @ cal_needs_confirmation,
      start_time = appointment_time,
      end_time = end_at,
      requires_confirmation = False\<rparr>"

definition cal_booked :: "pystr \<Rightarrow> datetime \<Rightarrow> pystr" where
  \<comment> \<open>the reply of line 68\<close>
  "cal_booked specialist appointment_time =
     cal_booked_prefix @ specialist @ str_na @ strftime appointment_time @ cal_booked_suffix"

definition cal_schedule_appointment_try ::
  "env \<Rightarrow> pystr \<Rightarrow> pystr \<Rightarrow> world \<Rightarrow> (exn + pystr) \<times> world" where
  "cal_schedule_appointment_try E name symptoms w =
     (case classify E symptoms w of
        (Inl e, w1) \<Rightarrow> (Inl e, w1)
      | (Inr specialist, w1) \<Rightarrow>
          (case datetime_now w1 of (now, w2) \<Rightarrow>
          (case datetime_add now (timedelta_hours 3) of
             None \<Rightarrow> (Inl OverflowError, w2)
           | Some appointment_time \<Rightarrow>
          (case get_calendar_service w2 of
             (Some e, w3) \<Rightarrow> (Inl e, w3)
           | (None, w3) \<Rightarrow>
          (case datetime_add appointment_time (timedelta_minutes 30) of
             None \<Rightarrow> (Inl OverflowError, w3)
           | Some end_at \<Rightarrow>
          (case events_insert (cal_event name specialist symptoms appointment_time end_at) w3 of
             (Inl e, w4) \<Rightarrow> (Inl e, w4)
           | (Inr event_id, w4) \<Rightarrow> (Inr (cal_booked specialist appointment_time), w4)))))))"

definition cal_schedule_appointment ::
  "env \<Rightarrow> pystr \<Rightarrow> pystr \<Rightarrow> world \<Rightarrow> pystr \<times> world" where
  \<comment> \<open>\<open>except Exception\<close>: every exception gives the error message\<close>
  "cal_schedule_appointment E name symptoms w =
     (case cal_schedule_appointment_try E name symptoms w of
        (Inr reply, w1) \<Rightarrow> (reply, w1)
      | (Inl e, w1) \<Rightarrow> (cal_error, w1))"

subsection \<open>generate_response\<close>

fun format_history :: "(pystr \<times> pystr) list \<Rightarrow> pystr" where
  \<comment> \<open>the loop of \<open>format_prompt\<close>\<close>
  "format_history [] = []"
| "format_history ((user, assistant) # history) =
     cal_user @ user @ cal_assistant @ assistant @ [10] @ format_history history"

definition format_prompt :: "env \<Rightarrow> pystr \<Rightarrow> (pystr \<times> pystr) list \<Rightarrow> pystr" where
  "format_prompt E message history =
     SYSTEM_PROMPT E @ [10, 10] @ format_history history @ cal_user @ message @ cal_assistant"

definition cal_trigger :: "env \<Rightarrow> pystr \<Rightarrow> bool" where
  \<comment> \<open>the condition of line 75\<close>
  "cal_trigger E message = (str_in kw_simptom (lower E message) \<or> str_in kw_zapis (lower E message))"

definition cal_generate :: "env \<Rightarrow> pystr \<Rightarrow> (pystr \<times> pystr) list \<Rightarrow> world \<Rightarrow> generated" where
  \<comment> \<open>lines 90 to 105\<close>
  "cal_generate E message history w =
     stream_reply E (format_prompt E message history) cal_generation_error w"

definition cal_generate_response ::
  "env \<Rightarrow> pystr \<Rightarrow> (pystr \<times> pystr) list \<Rightarrow> world \<Rightarrow> generated" where
  "cal_generate_response E message history w =
     (if cal_trigger E message then
        (let w0 = init_step w in
         if step w0 = Some 0 then
           \<lparr>yielded = [], returned = Some cal_prompt, world_after = w0\<lparr>step := Some 1\<rparr>\<rparr>
         else if step w0 = Some 1 then
           (let parts = split1 32 message;
                name = parts ! 0;
                symptoms = (if 1 < length parts then parts ! 1 else [])
            in case cal_schedule_appointment E (strip name) (strip symptoms) w0 of
                 (response, w1) \<Rightarrow>
                   \<lparr>yielded = [], returned = Some response, world_after = w1\<lparr>step := Some 0\<rparr>\<rparr>)
         else cal_generate E message history w0)
      else cal_generate E message history w)"

section \<open>Sessions\<close>

text \<open>
  \<open>gr.ChatInterface(fn=generate_response)\<close> hands the message of every chat session to
  the one function object of the process; the function gets the message and the history
  of the session, not its identity. The step a session meets is the attribute of that
  function object.
\<close>

type_synonym session = nat

definition wh_chat :: "env \<Rightarrow> session \<Rightarrow> pystr \<Rightarrow> (pystr \<times> pystr) list \<Rightarrow> world \<Rightarrow> generated" where
  "wh_chat E sid message history w = wh_generate_response E message history w"

definition cal_chat :: "env \<Rightarrow> session \<Rightarrow> pystr \<Rightarrow> (pystr \<times> pystr) list \<Rightarrow> world \<Rightarrow> generated" where
  "cal_chat E sid message history w = cal_generate_response E message history w"

definition step_of :: "session \<Rightarrow> world \<Rightarrow> nat option" where
  "step_of sid w = step w"

section \<open>What is observed of a run\<close>

text \<open>
  The events a run added to the calendar, and the two offsets of a slot: the slot lasts
  30 minutes and starts 3 hours after the time \<open>requested\<close>.
\<close>

definition new_events :: "world \<Rightarrow> world \<Rightarrow> (nat \<times> event) list" where
  "new_events w w' = drop (length (events w)) (events w')"

definition slot_ok :: "datetime \<Rightarrow> nat \<times> event \<Rightarrow> bool" where
  "slot_ok requested item =
     (end_time (snd item) - start_time (snd item) = timedelta_minutes 30 \<and>
      start_time (snd item) - requested = timedelta_hours 3)"




fun is_classify :: "call \<Rightarrow> bool" where
  "is_classify (Classify symptoms) = True"
| "is_classify c = False"

fun is_generation :: "call \<Rightarrow> bool" where
  "is_generation (TextGeneration prompt) = True"
| "is_generation c = False"

section \<open>A concrete setting\<close>

text \<open>
  A setting to run the model in: \<open>str.lower\<close> on the Latin and the Cyrillic capitals, a
  classifier that always answers \<open>terapevt\<close>, a calendar search that looks for the query
  in the summary, a configured endpoint, and a stream of two tokens.
\<close>

definition lower_cp :: "nat \<Rightarrow> nat" where
  "lower_cp c =
     (if 65 \<le> c \<and> c \<le> 90 then c + 32
      else if 1040 \<le> c \<and> c \<le> 1071 then c + 32
      else if 1024 \<le> c \<and> c \<le> 1039 then c + 80
      else c)"

definition msg_trigger :: pystr where
  \<comment> \<open>the first example of app-webhook.py:171, "I need a booking with a doctor"\<close>
  "msg_trigger =
     [1053, 1091, 1078, 1085, 1072, 32, 1079, 1072, 1087, 1080, 1089, 1100, 32, 1082, 32, 1074,
      1088, 1072, 1095, 1091]"

definition msg_details :: pystr where
  \<comment> \<open>the details message of the scenario: "Ivan Petrov, sore throat and fever"\<close>
  "msg_details =
     [1048, 1074, 1072, 1085, 32, 1055, 1077, 1090, 1088, 1086, 1074, 44, 32, 1073, 1086, 1083,
      1080, 1090, 32, 1075, 1086, 1088, 1083, 1086, 32, 1080, 32, 1090, 1077, 1084, 1087,
      1077, 1088, 1072, 1090, 1091, 1088, 1072]"

definition msg_example :: pystr where
  \<comment> \<open>the second example of app-webhook.py:172: "Ivan Sidorov, headache and fever"\<close>
  "msg_example =
     [1048, 1074, 1072, 1085, 32, 1057, 1080, 1076, 1086, 1088, 1086, 1074, 44, 32, 1075, 1086,
      1083, 1086, 1074, 1085, 1072, 1103, 32, 1073, 1086, 1083, 1100, 32, 1080, 32, 1090,
      1077, 1084, 1087, 1077, 1088, 1072, 1090, 1091, 1088, 1072]"

definition msg_details_kw :: pystr where
  \<comment> \<open>a details message that carries a trigger term: "Ivan Petrov, symptoms: sore throat"\<close>
  "msg_details_kw =
     [1048, 1074, 1072, 1085, 32, 1055, 1077, 1090, 1088, 1086, 1074, 44, 32, 1089, 1080, 1084,
      1087, 1090, 1086, 1084, 1099, 58, 32, 1073, 1086, 1083, 1080, 1090, 32, 1075, 1086,
      1088, 1083, 1086]"

definition name_ivan_petrov :: pystr where
  \<comment> \<open>"Ivan Petrov"\<close>
  "name_ivan_petrov =
     [1048, 1074, 1072, 1085, 32, 1055, 1077, 1090, 1088, 1086, 1074]"

definition name_ivan :: pystr where
  \<comment> \<open>"Ivan"\<close>
  "name_ivan =
     [1048, 1074, 1072, 1085]"

definition terapevt :: pystr where
  \<comment> \<open>"terapevt" (general practitioner)\<close>
  "terapevt =
     [1090, 1077, 1088, 1072, 1087, 1077, 1074, 1090]"

definition sore_throat :: pystr where
  \<comment> \<open>"sore throat and fever"\<close>
  "sore_throat =
     [1073, 1086, 1083, 1080, 1090, 32, 1075, 1086, 1088, 1083, 1086, 32, 1080, 32, 1090, 1077,
      1084, 1087, 1077, 1088, 1072, 1090, 1091, 1088, 1072]"

definition rest_of_details :: pystr where
  \<comment> \<open>what follows the first space of that message: "Petrov, symptoms: sore throat"\<close>
  "rest_of_details =
     [1055, 1077, 1090, 1088, 1086, 1074, 44, 32, 1089, 1080, 1084, 1087, 1090, 1086, 1084, 1099,
      58, 32, 1073, 1086, 1083, 1080, 1090, 32, 1075, 1086, 1088, 1083, 1086]"


definition clinic :: env where
  "clinic =
     \<lparr>lower = map lower_cp,
      define_specialist = (\<lambda>symptoms. Inr terapevt),
      q_match = (\<lambda>q ev. str_in q (summary ev)),
      WEBHOOK_URL = Some [104, 116, 116, 112, 58, 47, 47, 104],
      SYSTEM_PROMPT = [],
      str_history = (\<lambda>history. [91, 93]),
      text_generation = (\<lambda>prompt. ([[79], [75]], False))\<rparr>"

definition noon :: datetime where
  \<comment> \<open>2026-11-03T12:00:00\<close>
  "noon = 63929304000000000"

definition fresh :: world where
  \<comment> \<open>a process that has just started: no step attribute, an empty calendar, no faults\<close>
  "fresh =
     \<lparr>step = None, clock = noon, ticks = [], events = [], api_faults = [],
      post_replies = [], trace = []\<rparr>"

text \<open>
  The worlds the examples start from: the step at 0 and at 1; an endpoint that fails three
  times; an endpoint that answers 304 each time; a calendar whose query raises
  \<open>HttpError\<close>, and one whose query raises another exception; and a calendar that
  already holds the booking of Ivan Petrov made at \<open>noon\<close>.
\<close>

definition idle :: world where
  "idle = fresh\<lparr>step := Some 0\<rparr>"

definition awaiting :: world where
  "awaiting = fresh\<lparr>step := Some 1\<rparr>"






definition slot_start :: datetime where
  "slot_start = noon + timedelta_hours 3"

definition slot_end :: datetime where
  "slot_end = slot_start + timedelta_minutes 30"

definition ivan_event :: event where
  "ivan_event = wh_event name_ivan_petrov terapevt sore_throat slot_start slot_end"

definition booked :: world where
  "booked = fresh\<lparr>events := [(0, ivan_event)]\<rparr>"

section \<open>What each outside call leaves unchanged\<close>

lemma datetime_nowD:
  "datetime_now w = (t, w') \<Longrightarrow>
     step w' = step w \<and> events w' = events w \<and> post_replies w' = post_replies w \<and>
     api_faults w' = api_faults w \<and> trace w' = trace w \<and> clock w' = t"
  by (auto simp: datetime_now_def split: list.splits)

lemma classifyD:
  "classify E s w = (r, w') \<Longrightarrow>
     step w' = step w \<and> clock w' = clock w \<and> events w' = events w \<and>
     post_replies w' = post_replies w \<and> api_faults w' = api_faults w \<and>
     ticks w' = ticks w \<and> trace w' = trace w @ [Classify s] \<and> r = define_specialist E s"
  by (auto simp: classify_def)

lemma get_calendar_serviceD:
  "get_calendar_service w = (r, w') \<Longrightarrow>
     step w' = step w \<and> clock w' = clock w \<and> events w' = events w \<and>
     post_replies w' = post_replies w \<and> trace w' = trace w \<and> ticks w' = ticks w"
  by (auto simp: get_calendar_service_def api_fault_def split: list.splits)

lemma events_listD:
  "events_list E a b q n w = (r, w') \<Longrightarrow>
     step w' = step w \<and> clock w' = clock w \<and> events w' = events w \<and>
     post_replies w' = post_replies w \<and> ticks w' = ticks w \<and>
     trace w' = trace w @ [ListEvents a b q n]"
  by (auto simp: events_list_def api_fault_def split: list.splits option.splits)

lemma events_insertD:
  "events_insert ev w = (r, w') \<Longrightarrow>
     step w' = step w \<and> clock w' = clock w \<and> post_replies w' = post_replies w \<and>
     ticks w' = ticks w \<and> trace w' = trace w @ [InsertEvent ev] \<and>
     events w' = (case r of Inl e \<Rightarrow> events w | Inr event_id \<Rightarrow> events w @ [(event_id, ev)])"
  by (auto simp: events_insert_def api_fault_def split: list.splits option.splits)

lemma send_webhook_confirmation_body_frame:
  "step (snd (send_webhook_confirmation_body E i w)) = step w"
  "clock (snd (send_webhook_confirmation_body E i w)) = clock w"
  "events (snd (send_webhook_confirmation_body E i w)) = events w"
  by (simp_all add: send_webhook_confirmation_body_def requests_post_def
      split: list.splits post_reply.splits)

lemma retrying_frame:
  "step (snd (retrying E i n w)) = step w \<and>
   clock (snd (retrying E i n w)) = clock w \<and>
   events (snd (retrying E i n w)) = events w"
proof (induction E i n w rule: retrying.induct)
  case (1 E i n w)
  show ?case
  proof (cases "send_webhook_confirmation_body E i w")
    case (Pair r w1)
    have f: "step w1 = step w" "clock w1 = clock w" "events w1 = events w"
      using send_webhook_confirmation_body_frame [of E i w] Pair by simp_all
    show ?thesis
    proof (cases r)
      case None
      then show ?thesis using Pair f by (simp add: retrying.simps)
    next
      case (Some e)
      show ?thesis
      proof (cases "MAX_RETRIES \<le> n")
        case True
        then show ?thesis using Pair Some f by (simp add: retrying.simps [of E i n w])
      next
        case False
        then show ?thesis
          using Pair Some f "1.IH"
          by (simp add: retrying.simps [of E i n w])
      qed
    qed
  qed
qed

lemma send_webhook_confirmationD:
  "send_webhook_confirmation E i w = (r, w') \<Longrightarrow>
     step w' = step w \<and> clock w' = clock w \<and> events w' = events w"
  using retrying_frame [of E i 1 w] by (simp add: send_webhook_confirmation_def)

lemma check_duplicate_event_tryD:
  "check_duplicate_event_try E n t w = (r, w') \<Longrightarrow>
     step w' = step w \<and> clock w' = clock w \<and> events w' = events w \<and>
     post_replies w' = post_replies w \<and> ticks w' = ticks w"
  by (auto simp: check_duplicate_event_try_def
      split: prod.splits sum.splits option.splits
      dest!: get_calendar_serviceD events_listD)

lemma check_duplicate_eventD:
  "check_duplicate_event E n t w = (r, w') \<Longrightarrow>
     step w' = step w \<and> clock w' = clock w \<and> events w' = events w \<and>
     post_replies w' = post_replies w \<and> ticks w' = ticks w"
  by (auto simp: check_duplicate_event_def split: prod.splits sum.splits exn.splits
      dest!: check_duplicate_event_tryD)

lemma datetime_add_diff: "datetime_add t d = Some t' \<Longrightarrow> t' - t = d"
  by (auto simp: datetime_add_def split: if_splits)

section \<open>The retry loop\<close>



lemma retrying_succeeds:
  "send_webhook_confirmation_body E i w = (None, w1) \<Longrightarrow> retrying E i n w = (None, w1)"
  by (subst retrying.simps) simp


lemma send_webhook_confirmation_ok:
  assumes "url_set E" and "post_replies w = []"
  shows "send_webhook_confirmation E i w = (None, w\<lparr>trace := trace w @ [Post i]\<rparr>)"
proof -
  have "send_webhook_confirmation_body E i w = (None, w\<lparr>trace := trace w @ [Post i]\<rparr>)"
    using assms
    by (simp add: send_webhook_confirmation_body_def requests_post_def raise_for_status_def)
  from retrying_succeeds [OF this] show ?thesis by (simp add: send_webhook_confirmation_def)
qed

section \<open>Runs in the concrete setting\<close>

lemma clinic_fields:
  "define_specialist clinic symptoms = Inr terapevt"
  "q_match clinic q ev = str_in q (summary ev)"
  "lower clinic s = map lower_cp s"
  "text_generation clinic prompt = ([[79], [75]], False)"
  "SYSTEM_PROMPT clinic = []"
  "str_history clinic history = [91, 93]"
  by (simp_all add: clinic_def)

lemma url_set_clinic: "url_set clinic"
  by (simp add: url_set_def clinic_def)

lemma cal_trigger_eq: "cal_trigger E message = wh_trigger E message"
  by (auto simp: cal_trigger_def wh_trigger_def)

lemma wh_trigger_msg_trigger: "wh_trigger clinic msg_trigger"
  by (simp add: wh_trigger_def clinic_def msg_trigger_def kw_zapis_def kw_simptom_def lower_cp_def)

lemma wh_trigger_msg_details_kw: "wh_trigger clinic msg_details_kw"
  by (simp add: wh_trigger_def clinic_def msg_details_kw_def kw_zapis_def kw_simptom_def
      lower_cp_def)

lemma not_trigger_msg_details: "\<not> wh_trigger clinic msg_details"
  by (simp add: wh_trigger_def clinic_def msg_details_def kw_zapis_def kw_simptom_def lower_cp_def)

lemma not_trigger_msg_example: "\<not> wh_trigger clinic msg_example"
  by (simp add: wh_trigger_def clinic_def msg_example_def kw_zapis_def kw_simptom_def lower_cp_def)


lemma pending_not_duplicate: "wh_pending specialist t \<noteq> wh_duplicate"
  by (simp add: wh_duplicate_def wh_pending_def wh_pending_prefix_def)

lemmas run_defs =
  wh_schedule_appointment_def wh_schedule_appointment_try_def datetime_now_def
  check_duplicate_event_def check_duplicate_event_try_def get_calendar_service_def api_fault_def
  datetime_add_def DATETIME_MAX_def timedelta_hours_def timedelta_minutes_def events_list_def
  overlaps_def wh_book_def classify_def events_insert_def wh_event_def noon_def
  cal_schedule_appointment_def cal_schedule_appointment_try_def cal_event_def

lemma send_webhook_confirmation_clinic:
  "post_replies w = [] \<Longrightarrow>
     send_webhook_confirmation clinic i w = (None, w\<lparr>trace := trace w @ [Post i]\<rparr>)"
  using send_webhook_confirmation_ok [OF url_set_clinic] .

lemma first_booking:
  "wh_schedule_appointment clinic name_ivan_petrov sore_throat fresh =
     (Some (wh_pending terapevt slot_start),
      fresh\<lparr>events := [(0, ivan_event)],
        trace := [ListEvents noon (noon + timedelta_minutes 30) (summary_prefix @ name_ivan_petrov) 1,
                  Classify sore_throat, InsertEvent ivan_event, Post 0]\<rparr>)"
  by (simp add: run_defs send_webhook_confirmation_clinic fresh_def ivan_event_def slot_start_def
      slot_end_def clinic_fields)






lemma wh_reaches_awaiting:
  "world_after (wh_generate_response clinic msg_trigger [] fresh) = awaiting"
  using wh_trigger_msg_trigger
  by (simp add: wh_generate_response_def init_step_def fresh_def awaiting_def)

lemma cal_reaches_awaiting:
  "world_after (cal_generate_response clinic msg_trigger [] fresh) = awaiting"
  using wh_trigger_msg_trigger
  by (simp add: cal_generate_response_def cal_trigger_eq init_step_def fresh_def awaiting_def)

section \<open>The step of the dialogue\<close>

lemma wh_bookD:
  "wh_book E n s w = (r, w') \<Longrightarrow>
     step w' = step w \<and> list_all (slot_ok (clock w')) (new_events w w')"
  by (auto simp: wh_book_def new_events_def slot_ok_def wh_event_def
      split: prod.splits sum.splits option.splits
      dest!: classifyD datetime_nowD get_calendar_serviceD events_insertD
        send_webhook_confirmationD datetime_add_diff)

lemma wh_schedule_appointment_tryD:
  assumes "wh_schedule_appointment_try E n s w = (r, w')"
  shows "step w' = step w \<and> list_all (slot_ok (clock w')) (new_events w w')"
proof -
  obtain now w1 where a: "datetime_now w = (now, w1)" by force
  obtain d w2 where b: "check_duplicate_event E n now w1 = (d, w2)" by force
  have f: "step w2 = step w" "events w2 = events w"
    using datetime_nowD [OF a] check_duplicate_eventD [OF b] by simp_all
  show ?thesis
  proof (cases d)
    case (Inl e)
    then have "w' = w2" using assms a b by (simp add: wh_schedule_appointment_try_def)
    then show ?thesis using f by (simp add: new_events_def)
  next
    case (Inr dup)
    show ?thesis
    proof (cases dup)
      case True
      then have "w' = w2" using assms a b Inr by (simp add: wh_schedule_appointment_try_def)
      then show ?thesis using f by (simp add: new_events_def)
    next
      case False
      then have "wh_book E n s w2 = (r, w')"
        using assms a b Inr by (simp add: wh_schedule_appointment_try_def)
      from wh_bookD [OF this] show ?thesis using f by (simp add: new_events_def)
    qed
  qed
qed

lemma wh_schedule_appointmentD:
  assumes "wh_schedule_appointment E n s w = (r, w')"
  shows "step w' = step w \<and> list_all (slot_ok (clock w')) (new_events w w')"
proof -
  obtain r0 w0 where a: "wh_schedule_appointment_try E n s w = (r0, w0)" by force
  have "w' = w0"
    using assms a by (simp add: wh_schedule_appointment_def split: sum.splits exn.splits)
  then show ?thesis using wh_schedule_appointment_tryD [OF a] by simp
qed



lemma wh_step_after:
  assumes "wh_trigger E message"
  shows "step (world_after (wh_generate_response E message history w)) =
     (if step w = Some 1 then Some 0
      else if step w = None \<or> step w = Some 0 then Some 1 else step w)"
proof (cases "step w = Some 1")
  case True
  obtain r w' where a: "wh_schedule_appointment E (strip (split1 44 message ! 0))
      (strip (split1 44 message ! 1)) (w\<lparr>step := Some 0\<rparr>) = (r, w')" by force
  show ?thesis using assms True wh_schedule_appointmentD [OF a] a
    by (simp add: wh_generate_response_def init_step_def Let_def)
next
  case False
  then show ?thesis using assms
    by (auto simp: wh_generate_response_def init_step_def Let_def wh_generate_def stream_reply_def
        split: prod.splits)
qed

lemma cal_step_after:
  assumes "wh_trigger E message"
  shows "step (world_after (cal_generate_response E message history w)) =
     (if step w = Some 1 then Some 0
      else if step w = None \<or> step w = Some 0 then Some 1 else step w)"
  using assms
  by (auto simp: cal_generate_response_def cal_trigger_eq init_step_def Let_def cal_generate_def
      stream_reply_def split: prod.splits)

text \<open>
  Claim C1, as stated: for two distinct sessions A and B, a message of A that advances
  the step leaves the step of B unchanged. It fails: with sessions 0 and 1 both at step 0,
  the trigger message of session 0 moves the step of session 0 to 1, and the step session 1
  meets is 1 as well, in both files.
\<close>

theorem C1_counterexample:
  "(0::session) \<noteq> 1 \<and>
   step_of 0 idle = Some 0 \<and>
   step_of 0 (world_after (wh_chat clinic 0 msg_trigger [] idle)) = Some 1 \<and>
   step_of 1 idle = Some 0 \<and>
   step_of 1 (world_after (wh_chat clinic 0 msg_trigger [] idle)) = Some 1 \<and>
   step_of 0 (world_after (cal_chat clinic 0 msg_trigger [] idle)) = Some 1 \<and>
   step_of 1 (world_after (cal_chat clinic 0 msg_trigger [] idle)) = Some 1"
  using wh_trigger_msg_trigger
  by (simp add: step_of_def wh_chat_def cal_chat_def wh_generate_response_def
      cal_generate_response_def cal_trigger_eq init_step_def idle_def fresh_def)

text \<open>
  Claim C1, amended. The step is one attribute of the function object, shared by all
  sessions: after a message of session A the step every session B meets is the step A
  meets, and a message of A that advances the step (unset or 0 to 1, 1 to 0) changes the
  step of B.
\<close>

theorem C1_step_shared:
  assumes "wh_trigger E message"
    and "step_of A w = None \<or> step_of A w = Some 0 \<or> step_of A w = Some 1"
  shows "step_of B (world_after (wh_chat E A message history w)) =
           step_of A (world_after (wh_chat E A message history w)) \<and>
         step_of B (world_after (wh_chat E A message history w)) \<noteq> step_of B w \<and>
         step_of B (world_after (cal_chat E A message history w)) =
           step_of A (world_after (cal_chat E A message history w)) \<and>
         step_of B (world_after (cal_chat E A message history w)) \<noteq> step_of B w"
  using assms wh_step_after [OF assms(1), of history w] cal_step_after [OF assms(1), of history w]
  by (auto simp: step_of_def wh_chat_def cal_chat_def)

theorem C1_step_shared_witness:
  "wh_trigger clinic msg_trigger \<and> step_of 0 idle = Some 0 \<and>
   step_of 1 (world_after (wh_chat clinic 0 msg_trigger [] idle)) =
     step_of 0 (world_after (wh_chat clinic 0 msg_trigger [] idle)) \<and>
   step_of 1 (world_after (wh_chat clinic 0 msg_trigger [] idle)) \<noteq> step_of 1 idle \<and>
   step_of 1 (world_after (cal_chat clinic 0 msg_trigger [] idle)) =
     step_of 0 (world_after (cal_chat clinic 0 msg_trigger [] idle)) \<and>
   step_of 1 (world_after (cal_chat clinic 0 msg_trigger [] idle)) \<noteq> step_of 1 idle"
  using C1_step_shared [of clinic msg_trigger 0 idle 1 "[]"] wh_trigger_msg_trigger
  by (simp add: step_of_def idle_def fresh_def)

section \<open>Details messages\<close>

text \<open>
  A message without a trigger term is handed to text generation whatever the step is: the
  step, the calendar and the return value are as generation leaves them.
\<close>

lemma no_trigger_is_generation:
  assumes "\<not> wh_trigger E message"
  shows "wh_generate_response E message history w = wh_generate E message history w"
    and "cal_generate_response E message history w = cal_generate E message history w"
    and "returned (wh_generate E message history w) = None"
    and "step (world_after (wh_generate E message history w)) = step w"
    and "events (world_after (wh_generate E message history w)) = events w"
    and "returned (cal_generate E message history w) = None"
    and "step (world_after (cal_generate E message history w)) = step w"
    and "events (world_after (cal_generate E message history w)) = events w"
  using assms
  by (simp_all add: wh_generate_response_def cal_generate_response_def cal_trigger_eq
      wh_generate_def cal_generate_def stream_reply_def split: prod.splits)

text \<open>
  Claim C3: every message received while the step is 1 is parsed and booked, with no
  condition on its content beyond the parse. At the second example of \<open>app-webhook.py\<close>
  (line 172), received at step 1, the code does otherwise: the message has no trigger
  term, so the condition of line 123 fails, the message goes to the inference client, the
  generator returns nothing, no event is created and the step stays 1. The same holds in
  \<open>app-calendar.py\<close>.
\<close>

theorem C3_details_need_trigger_term:
  "step awaiting = Some 1 \<and>
   returned (wh_generate_response clinic msg_example [] awaiting) = None \<and>
   yielded (wh_generate_response clinic msg_example [] awaiting) = [[79], [79, 75]] \<and>
   step (world_after (wh_generate_response clinic msg_example [] awaiting)) = Some 1 \<and>
   events (world_after (wh_generate_response clinic msg_example [] awaiting)) = [] \<and>
   list_all is_generation (trace (world_after (wh_generate_response clinic msg_example [] awaiting))) \<and>
   returned (cal_generate_response clinic msg_example [] awaiting) = None \<and>
   step (world_after (cal_generate_response clinic msg_example [] awaiting)) = Some 1 \<and>
   events (world_after (cal_generate_response clinic msg_example [] awaiting)) = [] \<and>
   list_all is_generation (trace (world_after (cal_generate_response clinic msg_example [] awaiting)))"
  using not_trigger_msg_example
  by (simp add: wh_generate_response_def cal_generate_response_def cal_trigger_eq
      wh_generate_def cal_generate_def stream_reply_def clinic_def awaiting_def fresh_def)

text \<open>
  Claim C9: the details message of the scenario, received at step 1, is booked with the
  specialist of its symptoms and a summary that holds the full name. At that message the
  code books nothing, in either file: the message has no trigger term, the classifier is
  not called and no event is created. In \<open>app-calendar.py\<close> a details message that
  does carry a trigger term is cut at its first space: the summary holds the first word of
  the name, and the classifier gets the rest of the message.
\<close>

theorem C9_scenario_message_is_not_booked:
  "step awaiting = Some 1 \<and>
   returned (wh_generate_response clinic msg_details [] awaiting) = None \<and>
   yielded (wh_generate_response clinic msg_details [] awaiting) = [[79], [79, 75]] \<and>
   step (world_after (wh_generate_response clinic msg_details [] awaiting)) = Some 1 \<and>
   events (world_after (wh_generate_response clinic msg_details [] awaiting)) = [] \<and>
   filter is_classify (trace (world_after (wh_generate_response clinic msg_details [] awaiting))) = [] \<and>
   returned (cal_generate_response clinic msg_details [] awaiting) = None \<and>
   step (world_after (cal_generate_response clinic msg_details [] awaiting)) = Some 1 \<and>
   events (world_after (cal_generate_response clinic msg_details [] awaiting)) = [] \<and>
   filter is_classify (trace (world_after (cal_generate_response clinic msg_details [] awaiting))) = [] \<and>
   map summary (map snd (events (world_after (cal_generate_response clinic msg_details_kw [] awaiting)))) =
     [summary_prefix @ name_ivan @ comma_space @ terapevt] \<and>
   filter is_classify (trace (world_after (cal_generate_response clinic msg_details_kw [] awaiting))) =
     [Classify rest_of_details]"
proof -
  have a: "split1 32 msg_details_kw = [name_ivan, rest_of_details]"
    by (simp add: split1_def msg_details_kw_def name_ivan_def rest_of_details_def)
  have b: "strip name_ivan = name_ivan" "strip rest_of_details = rest_of_details"
    by (simp_all add: strip_def name_ivan_def rest_of_details_def isspace_def)
  have c: "cal_schedule_appointment clinic name_ivan rest_of_details awaiting =
      (cal_booked terapevt slot_start,
       awaiting\<lparr>events := [(0, cal_event name_ivan terapevt rest_of_details slot_start slot_end)],
         trace := [Classify rest_of_details,
                   InsertEvent (cal_event name_ivan terapevt rest_of_details slot_start slot_end)]\<rparr>)"
    by (simp add: run_defs awaiting_def fresh_def slot_start_def slot_end_def clinic_fields)
  have d: "cal_generate_response clinic msg_details_kw [] awaiting =
      \<lparr>yielded = [], returned = Some (cal_booked terapevt slot_start),
       world_after = awaiting\<lparr>step := Some 0,
         events := [(0, cal_event name_ivan terapevt rest_of_details slot_start slot_end)],
         trace := [Classify rest_of_details,
                   InsertEvent (cal_event name_ivan terapevt rest_of_details slot_start slot_end)]\<rparr>\<rparr>"
    using wh_trigger_msg_details_kw
    by (simp add: cal_generate_response_def cal_trigger_eq init_step_def a b c Let_def)
      (simp add: awaiting_def fresh_def)
  show ?thesis
    unfolding d using not_trigger_msg_details
    by (simp add: wh_generate_response_def cal_generate_response_def cal_trigger_eq
        wh_generate_def cal_generate_def stream_reply_def clinic_fields awaiting_def fresh_def
        cal_event_def)
qed

text \<open>
  Claim C10. \<open>generate_response\<close> is a generator function. On the booking paths (a
  message with a trigger term while the step is unset, 0 or 1) it ends by \<open>return\<close> of a
  string and the sequence of values it yields is empty, in both files: the prompt and the
  booking result are the return value of the generator and never one of its outputs.
\<close>

theorem C10_returned_never_yielded:
  assumes "wh_trigger E message"
    and "step w = None \<or> step w = Some 0 \<or> step w = Some 1"
  shows "yielded (wh_generate_response E message history w) = [] \<and>
         returned (wh_generate_response E message history w) \<noteq> None \<and>
         yielded (cal_generate_response E message history w) = [] \<and>
         returned (cal_generate_response E message history w) \<noteq> None"
  using assms
  by (auto simp: wh_generate_response_def cal_generate_response_def cal_trigger_eq init_step_def
      Let_def split: prod.splits)

theorem C10_returned_never_yielded_witness:
  "wh_trigger clinic msg_trigger \<and> step fresh = None \<and>
   yielded (wh_generate_response clinic msg_trigger [] fresh) = [] \<and>
   returned (wh_generate_response clinic msg_trigger [] fresh) \<noteq> None \<and>
   yielded (cal_generate_response clinic msg_trigger [] fresh) = [] \<and>
   returned (cal_generate_response clinic msg_trigger [] fresh) \<noteq> None \<and>
   wh_trigger clinic msg_details_kw \<and> step awaiting = Some 1 \<and>
   yielded (wh_generate_response clinic msg_details_kw [] awaiting) = [] \<and>
   returned (wh_generate_response clinic msg_details_kw [] awaiting) \<noteq> None \<and>
   yielded (cal_generate_response clinic msg_details_kw [] awaiting) = [] \<and>
   returned (cal_generate_response clinic msg_details_kw [] awaiting) \<noteq> None"
  using C10_returned_never_yielded [of clinic msg_trigger fresh "[]"]
    C10_returned_never_yielded [of clinic msg_details_kw awaiting "[]"]
    wh_trigger_msg_trigger wh_trigger_msg_details_kw
  by (simp add: fresh_def awaiting_def)

section \<open>The slot\<close>



section \<open>The duplicate check\<close>

text \<open>
  What the check answers when the calendar client works: whether the calendar holds an
  event that matches the query and overlaps the half hour that starts at \<open>time\<close>.
\<close>

lemma filter_nonempty: "(filter P xs \<noteq> []) = list_ex P xs"
  by (induction xs) auto

lemma check_duplicate_event_answer:
  assumes "api_faults w = []"
    and "datetime_add time (timedelta_minutes 30) = Some timeMax"
  shows "check_duplicate_event E name time w =
     (Inr (list_ex (\<lambda>item. overlaps time timeMax (snd item) \<and>
                              q_match E (summary_prefix @ name) (snd item)) (events w)),
      w\<lparr>trace := trace w @ [ListEvents time timeMax (summary_prefix @ name) 1]\<rparr>)"
  using assms
  by (simp add: check_duplicate_event_def check_duplicate_event_try_def get_calendar_service_def
      api_fault_def events_list_def filter_nonempty)

lemma check_duplicate_event_True:
  assumes "check_duplicate_event E name time w = (Inr True, w')"
  shows "events w' = events w \<and>
         (\<exists>timeMax. trace w' = trace w @ [ListEvents time timeMax (summary_prefix @ name) 1])"
  using assms
  by (auto simp: check_duplicate_event_def check_duplicate_event_try_def
      split: prod.splits sum.splits option.splits exn.splits
      dest!: get_calendar_serviceD events_listD)

text \<open>
  Claim C2: the check looks for events that overlap the slot of the appointment, the half
  hour that starts 3 hours after the request. The code asks for another interval:
  \<open>schedule_appointment\<close> passes \<open>datetime.now()\<close> (line 88), so the query covers the
  half hour that starts at the request. With the booking of Ivan Petrov in the calendar,
  an event of that name overlaps the slot, the query is sent for \<open>noon\<close> to half past, and
  the check answers \<open>False\<close>.
\<close>

theorem C2_window_starts_at_request:
  "events booked = [(0, ivan_event)] \<and>
   datetime_now booked = (noon, booked) \<and>
   start_time ivan_event = noon + timedelta_hours 3 \<and>
   end_time ivan_event = noon + timedelta_hours 3 + timedelta_minutes 30 \<and>
   overlaps (noon + timedelta_hours 3) (noon + timedelta_hours 3 + timedelta_minutes 30) ivan_event \<and>
   q_match clinic (summary_prefix @ name_ivan_petrov) ivan_event \<and>
   check_duplicate_event clinic name_ivan_petrov noon booked =
     (Inr False,
      booked\<lparr>trace := [ListEvents noon (noon + timedelta_minutes 30)
                          (summary_prefix @ name_ivan_petrov) 1]\<rparr>)"
  by (simp add: run_defs booked_def fresh_def ivan_event_def slot_start_def slot_end_def
      clinic_fields summary_prefix_def name_ivan_petrov_def)




text \<open>
  When the check answers \<open>True\<close>, the booking ends with the duplicate message; the
  query is the only outside call made, and the calendar is as before.
\<close>

lemma wh_duplicate_aborts:
  assumes "datetime_now w = (now, w1)"
    and "check_duplicate_event E name now w1 = (Inr True, w2)"
  shows "wh_schedule_appointment E name symptoms w = (Some wh_duplicate, w2) \<and>
         events w2 = events w \<and>
         (\<exists>timeMax. trace w2 = trace w @ [ListEvents now timeMax (summary_prefix @ name) 1])"
  using assms check_duplicate_event_True [OF assms(2)] datetime_nowD [OF assms(1)]
  by (simp add: wh_schedule_appointment_def wh_schedule_appointment_try_def)

text \<open>
  Claim C8: a duplicate found ends the booking before any write, so the same name and
  slot submitted twice in a row give no second event. The first half holds (the lemma
  above); the second does not: the check of the second submission covers the half hour at
  the request, not the slot, finds nothing, and a second event with the same name and the
  same slot is inserted.
\<close>

theorem C8_second_booking_is_made:
  "fst (wh_schedule_appointment clinic name_ivan_petrov sore_throat fresh) =
     Some (wh_pending terapevt slot_start) \<and>
   events (snd (wh_schedule_appointment clinic name_ivan_petrov sore_throat fresh)) =
     [(0, ivan_event)] \<and>
   fst (wh_schedule_appointment clinic name_ivan_petrov sore_throat
         (snd (wh_schedule_appointment clinic name_ivan_petrov sore_throat fresh))) =
     Some (wh_pending terapevt slot_start) \<and>
   events (snd (wh_schedule_appointment clinic name_ivan_petrov sore_throat
         (snd (wh_schedule_appointment clinic name_ivan_petrov sore_throat fresh)))) =
     [(0, ivan_event), (1, ivan_event)] \<and>
   wh_pending terapevt slot_start \<noteq> wh_duplicate"
  unfolding first_booking
  by (simp add: run_defs send_webhook_confirmation_clinic fresh_def ivan_event_def slot_start_def
      slot_end_def clinic_fields pending_not_duplicate)

section \<open>The confirmation\<close>








end
